theory Spec2Isabelle
  imports Complex_Main
begin

section \<open>JavaScript values and errors\<close>

text \<open>
  The repository is JavaScript. Numbers are modelled as exact reals: rounding of the
  float32 tensors and of the float64 arithmetic is not modelled, and the non-finite
  numbers appear only where the code can tell them apart (\<open>typeof\<close>, a comparison with
  the result of a division by zero). An exception is a value of \<open>js_error\<close>.
\<close>

datatype js_number = Finite real | NaN | PosInfinity | NegInfinity

datatype js_value =
    JNumber js_number
  | JString string
  | JBoolean bool
  | JUndefined
  | JNull
  | JObject
  | JFunction
  | JSymbol
  | JBigInt

datatype js_error =
    Error string    \<comment> \<open>\<open>throw new Error(message)\<close>\<close>
  | TypeError       \<comment> \<open>reading a property of \<open>undefined\<close>\<close>
  | TfError         \<comment> \<open>an error thrown inside the tensor library (shape mismatch)\<close>

fun typeof :: "js_value \<Rightarrow> string" where
  "typeof (JNumber _) = ''number''"
| "typeof (JString _) = ''string''"
| "typeof (JBoolean _) = ''boolean''"
| "typeof JUndefined = ''undefined''"
| "typeof JNull = ''object''"
| "typeof JObject = ''object''"
| "typeof JFunction = ''function''"
| "typeof JSymbol = ''symbol''"
| "typeof JBigInt = ''bigint''"

text \<open>\<open>xs[i]\<close> on a JavaScript array: \<open>undefined\<close> (here \<open>None\<close>) out of range.\<close>

definition js_index :: "'a list \<Rightarrow> nat \<Rightarrow> 'a option" where
  "js_index xs i = (if i < length xs then Some (xs ! i) else None)"

section \<open>OcrBase.js: the character sets\<close>

definition NUM_CASE :: string where
  "NUM_CASE = ''0123456789''"

definition LOWWER_CASE :: string where
  "LOWWER_CASE = ''abcdefghijklmnopqrstuvwxyz''"

definition UPPER_CASE :: string where
  "UPPER_CASE = ''ABCDEFGHIJKLMNOPQRSTUVWXYZ''"

definition MIX_LOWWER_UPPER_CASE :: string where
  "MIX_LOWWER_UPPER_CASE = LOWWER_CASE @ UPPER_CASE"

definition MIX_LOWWER_NUM_CASE :: string where
  "MIX_LOWWER_NUM_CASE = LOWWER_CASE @ NUM_CASE"

definition MIX_UPPER_NUM_CASE :: string where
  "MIX_UPPER_NUM_CASE = UPPER_CASE @ NUM_CASE"

definition MIX_LOWER_UPPER_NUM_CASE :: string where
  "MIX_LOWER_UPPER_NUM_CASE = LOWWER_CASE @ UPPER_CASE @ NUM_CASE"

text \<open>
  \<open>new Set(charset)\<close> for a string: the set of its characters, each a string of length
  one (a JavaScript string has no character type).
\<close>

definition new_Set :: "string \<Rightarrow> string set" where
  "new_Set charset = (\<lambda>c. [c]) ` set charset"

record OCRBase =
  ocrOnnxPath :: string
  charsetPath :: string
  validCharSet :: "string set"
  inValidCharSet :: "string set"

text \<open>The constructor: the two sets start empty (the field initialisers).\<close>

definition new_OCRBase :: "string \<Rightarrow> string \<Rightarrow> OCRBase" where
  "new_OCRBase onnxPath charsetFile =
     \<lparr>ocrOnnxPath = onnxPath, charsetPath = charsetFile,
      validCharSet = {}, inValidCharSet = {}\<rparr>"

definition setValidCharSet :: "string \<Rightarrow> OCRBase \<Rightarrow> OCRBase" where
  "setValidCharSet charset this = this\<lparr>validCharSet := new_Set charset\<rparr>"

definition setInValidCharset :: "string \<Rightarrow> OCRBase \<Rightarrow> OCRBase" where
  "setInValidCharset charset this = this\<lparr>inValidCharSet := new_Set charset\<rparr>"

text \<open>
  \<open>_isValidChar(char)\<close>. The argument is \<open>charset[k]\<close>, so it can be \<open>undefined\<close>
  (\<open>None\<close>), which no set of strings holds.
\<close>

definition isValidChar :: "OCRBase \<Rightarrow> string option \<Rightarrow> bool" where
  "isValidChar this char =
     (if (case char of None \<Rightarrow> False | Some c \<Rightarrow> c \<in> inValidCharSet this) then False
      else if validCharSet this = {} then True
      else (case char of None \<Rightarrow> False | Some c \<Rightarrow> c \<in> validCharSet this))"

text \<open>
  \<open>setRanges(charsetRange)\<close>. The method mutates the object and returns it, or throws;
  the model returns the thrown error, if any, and the object as the call leaves it.
\<close>

definition setRanges :: "js_value \<Rightarrow> OCRBase \<Rightarrow> js_error option \<times> OCRBase" where
  "setRanges charsetRange this =
     (if typeof charsetRange = ''number'' then
        (if charsetRange = JNumber (Finite 0) then (None, setValidCharSet NUM_CASE this)
         else if charsetRange = JNumber (Finite 1) then (None, setValidCharSet LOWWER_CASE this)
         else if charsetRange = JNumber (Finite 2) then (None, setValidCharSet UPPER_CASE this)
         else if charsetRange = JNumber (Finite 3)
           then (None, setValidCharSet MIX_LOWWER_UPPER_CASE this)
         else if charsetRange = JNumber (Finite 4)
           then (None, setValidCharSet MIX_LOWWER_NUM_CASE this)
         else if charsetRange = JNumber (Finite 5)
           then (None, setValidCharSet MIX_UPPER_NUM_CASE this)
         else if charsetRange = JNumber (Finite 6)
           then (None, setValidCharSet MIX_LOWER_UPPER_NUM_CASE this)
         else if charsetRange = JNumber (Finite 7)
           then (None, setInValidCharset MIX_LOWER_UPPER_NUM_CASE this)
         else (Some (Error ''Not support type''), this))
      else if typeof charsetRange = ''string'' then
        (case charsetRange of
           JString s \<Rightarrow> (None, setValidCharSet s this)
         | _ \<Rightarrow> (Some (Error ''Not support type''), this))
      else (Some (Error ''Not support type''), this))"

section \<open>OcrBase.js: the sequence decoder\<close>

text \<open>
  \<open>_parseToChar(argmaxData, charset)\<close>: the \<open>for\<close> loop over \<open>i\<close>, with the loop
  variables \<open>lastItem\<close> and \<open>result\<close>. The indices come from \<open>argMax\<close>, so they are
  natural numbers.
\<close>

function parseToChar_loop ::
  "OCRBase \<Rightarrow> nat list \<Rightarrow> string list \<Rightarrow> nat \<Rightarrow> nat \<Rightarrow> string option list
   \<Rightarrow> string option list" where
  "parseToChar_loop this argmaxData charset i lastItem result =
     (if i < length argmaxData then
        (if argmaxData ! i = lastItem
         then parseToChar_loop this argmaxData charset (i + 1) lastItem result
         else
           (let char = js_index charset (argmaxData ! i) in
            if argmaxData ! i \<noteq> 0 \<and> isValidChar this char
            then parseToChar_loop this argmaxData charset (i + 1) (argmaxData ! i)
                   (result @ [char])
            else parseToChar_loop this argmaxData charset (i + 1) (argmaxData ! i) result))
      else result)"
  by pat_completeness auto
termination
  by (relation "measure (\<lambda>(this, argmaxData, charset, i, lastItem, result).
        length argmaxData - i)") auto

text \<open>\<open>result.join('')\<close>: an \<open>undefined\<close> element is joined as the empty string.\<close>

definition join_empty :: "string option list \<Rightarrow> string" where
  "join_empty result = concat (map (\<lambda>e. case e of None \<Rightarrow> [] | Some s \<Rightarrow> s) result)"

definition parseToChar :: "OCRBase \<Rightarrow> nat list \<Rightarrow> string list \<Rightarrow> string" where
  "parseToChar this argmaxData charset =
     join_empty (parseToChar_loop this argmaxData charset 0 0 [])"

text \<open>
  The decoder as the specification words it (section 4.4), with the admissibility rule
  of section 4.3: a second definition, to be compared with \<open>parseToChar\<close>. An index
  with no entry in the charset has no character to append.
\<close>

definition admissible :: "string set \<Rightarrow> string set \<Rightarrow> string \<Rightarrow> bool" where
  "admissible validSet invalidSet ch =
     (if ch \<in> invalidSet then False else validSet = {} \<or> ch \<in> validSet)"

fun spec_decode :: "string set \<Rightarrow> string set \<Rightarrow> string list \<Rightarrow> nat \<Rightarrow> nat list \<Rightarrow> string" where
  "spec_decode validSet invalidSet charset lastEmittedIndex [] = []"
| "spec_decode validSet invalidSet charset lastEmittedIndex (k # ks) =
     (if k = lastEmittedIndex then spec_decode validSet invalidSet charset lastEmittedIndex ks
      else
        (case js_index charset k of
           Some ch \<Rightarrow> if k \<noteq> 0 \<and> admissible validSet invalidSet ch then ch else []
         | None \<Rightarrow> [])
        @ spec_decode validSet invalidSet charset k ks)"

section \<open>DetectionBase.js: decoding the network output\<close>

text \<open>A box is four numbers: centre form \<open>(cx, cy, w, h)\<close> or corner form \<open>(x1, y1, x2, y2)\<close>.\<close>

type_synonym box = "real \<times> real \<times> real \<times> real"

definition strides :: "nat list" where
  "strides = [8, 16, 32]"

text \<open>The grid of one stride: the cells \<open>[x, y]\<close>, row by row.\<close>

definition grid_cells :: "nat \<Rightarrow> nat \<Rightarrow> (nat \<times> nat) list" where
  "grid_cells hsize wsize = concat (map (\<lambda>y. map (\<lambda>x. (x, y)) [0..<wsize]) [0..<hsize])"

definition flatGrids :: "nat \<times> nat \<Rightarrow> (nat \<times> nat) list" where
  "flatGrids imageSize =
     concat (map (\<lambda>stride. grid_cells (fst imageSize div stride) (snd imageSize div stride))
       strides)"

definition flatExpandedStrides :: "nat \<times> nat \<Rightarrow> nat list" where
  "flatExpandedStrides imageSize =
     concat (map (\<lambda>stride.
       replicate (length (grid_cells (fst imageSize div stride) (snd imageSize div stride)))
         stride) strides)"

text \<open>
  \<open>tf.reshape(tf.tensor(cpuData), dims).arraySync()\<close> for \<open>dims = [h, w, c]\<close>: the library
  throws when the sizes do not match.
\<close>

definition reshape3 :: "real list \<Rightarrow> nat \<times> nat \<times> nat \<Rightarrow> js_error + real list list list" where
  "reshape3 cpuData dims =
     (case dims of (h, w, c) \<Rightarrow>
        if length cpuData \<noteq> h * w * c then Inl TfError
        else Inr (map (\<lambda>i. map (\<lambda>j. map (\<lambda>k. cpuData ! ((i * w + j) * c + k)) [0..<c])
                    [0..<w]) [0..<h]))"

definition adjustBoundingBoxCoordinates :: "real \<Rightarrow> real \<Rightarrow> real \<Rightarrow> real" where
  "adjustBoundingBoxCoordinates output grid expandedStride = (output + grid) * expandedStride"

text \<open>
  The body of the inner loop of \<open>_demoPostProcess\<close> for anchor \<open>j\<close>. With fewer than
  four columns the source writes NaN into the columns that are missing; the model leaves
  such a row as it is, and \<open>postProcess\<close> fails on it in any case (it needs six columns).
\<close>

definition decode_anchor :: "real list \<Rightarrow> nat \<times> nat \<Rightarrow> nat \<Rightarrow> real list" where
  "decode_anchor out grid expandedStride =
     out[0 := adjustBoundingBoxCoordinates (out ! 0) (real (fst grid)) (real expandedStride),
         1 := adjustBoundingBoxCoordinates (out ! 1) (real (snd grid)) (real expandedStride),
         2 := exp (out ! 2) * real expandedStride,
         3 := exp (out ! 3) * real expandedStride]"

text \<open>
  \<open>_demoPostProcess(cpuData, dims, imageSize)\<close>. Anchor \<open>j\<close> reads \<open>flatGrids[j]\<close>, which
  is \<open>undefined\<close> beyond the last cell (a \<open>TypeError\<close>); the result is \<open>outputs[0]\<close>,
  which does not exist for \<open>h = 0\<close>.
\<close>

definition demoPostProcess ::
  "real list \<Rightarrow> nat \<times> nat \<times> nat \<Rightarrow> nat \<times> nat \<Rightarrow> js_error + real list list" where
  "demoPostProcess cpuData dims imageSize =
     (case reshape3 cpuData dims of
        Inl e \<Rightarrow> Inl e
      | Inr outputs \<Rightarrow>
          (case dims of (h, w, c) \<Rightarrow>
             if 0 < h \<and> length (flatGrids imageSize) < w then Inl TypeError
             else if h = 0 then Inl TfError
             else Inr (map (\<lambda>j. decode_anchor (outputs ! 0 ! j) (flatGrids imageSize ! j)
                                (flatExpandedStrides imageSize ! j)) [0..<w])))"

text \<open>
  \<open>t.slice([0, b], [-1, n])\<close> on a tensor of rows: the columns \<open>b, ..., b + n - 1\<close> of
  every row. The library throws when the tensor has no rows (it is then of rank one) or
  has fewer than \<open>b + n\<close> columns.
\<close>

definition slice_columns :: "real list list \<Rightarrow> nat \<Rightarrow> nat \<Rightarrow> js_error + real list list" where
  "slice_columns t b n =
     (if t = [] \<or> \<not> list_all (\<lambda>row. b + n \<le> length row) t then Inl TfError
      else Inr (map (\<lambda>row. take n (drop b row)) t))"

definition box_of_row :: "real list \<Rightarrow> box" where
  "box_of_row row = (row ! 0, row ! 1, row ! 2, row ! 3)"

text \<open>
  The first three statements of \<open>_postProcess\<close>: the decoded centre-form boxes and the
  score of every anchor, \<open>predictions.slice([0, 4], [-1, 1]).mul(predictions.slice([0, 5], [-1, 1]))\<close>.
\<close>

definition postProcess_scores ::
  "real list \<Rightarrow> nat \<times> nat \<times> nat \<Rightarrow> nat \<times> nat \<Rightarrow> js_error + (box list \<times> real list)" where
  "postProcess_scores cpuData dims inputSize =
     (case demoPostProcess cpuData dims inputSize of
        Inl e \<Rightarrow> Inl e
      | Inr predictions \<Rightarrow>
     (case slice_columns predictions 0 4 of
        Inl e \<Rightarrow> Inl e
      | Inr boxes \<Rightarrow>
     (case slice_columns predictions 4 1 of
        Inl e \<Rightarrow> Inl e
      | Inr objectness \<Rightarrow>
     (case slice_columns predictions 5 1 of
        Inl e \<Rightarrow> Inl e
      | Inr classProbability \<Rightarrow>
          Inr (map box_of_row boxes,
               concat (map2 (map2 (*)) objectness classProbability))))))"

text \<open>
  \<open>_calcBbox(boxes, ratio)\<close>. In the pipeline \<open>ratio\<close> is positive; a division by zero
  (non-finite in JavaScript) is outside the model.
\<close>

primrec calcBbox :: "box list \<Rightarrow> real \<Rightarrow> box list" where
  "calcBbox [] ratio = []"
| "calcBbox (b # boxes) ratio =
     (case b of (b0, b1, b2, b3) \<Rightarrow>
        ((b0 - b2 / 2) / ratio,
         (b1 - b3 / 2) / ratio,
         (b0 + b2 / 2) / ratio,
         (b1 + b3 / 2) / ratio)) # calcBbox boxes ratio"

section \<open>DetectionBase.js: non-maximum suppression\<close>

text \<open>
  Modelled from the spec: \<open>argSort\<close> of \<open>utils/array-utils\<close>, which is not among the
  sources. Section 4.6: the indices ordered by descending score, by a stable sort
  (equal scores keep the order of their indices).
\<close>

definition argSort :: "real list \<Rightarrow> nat list" where
  "argSort array = sort_key (\<lambda>i. - (array ! i)) [0..<length array]"

text \<open>
  \<open>_getCurrentBox(boxes, orders)\<close>: the four coordinate columns of the boxes named by
  \<open>orders\<close> (all of them when \<open>orders\<close> is \<open>undefined\<close>). \<open>boxes[order][0]\<close> throws
  when \<open>boxes[order]\<close> is \<open>undefined\<close>.
\<close>

definition getCurrentBox ::
  "box list \<Rightarrow> nat list option \<Rightarrow> js_error + (real list \<times> real list \<times> real list \<times> real list)" where
  "getCurrentBox boxes orders =
     (let orders = (case orders of None \<Rightarrow> [0..<length boxes] | Some os \<Rightarrow> os) in
      if \<not> list_all (\<lambda>order. order < length boxes) orders then Inl TypeError
      else Inr (map (\<lambda>order. case boxes ! order of (x1, y1, x2, y2) \<Rightarrow> x1) orders,
                map (\<lambda>order. case boxes ! order of (x1, y1, x2, y2) \<Rightarrow> y1) orders,
                map (\<lambda>order. case boxes ! order of (x1, y1, x2, y2) \<Rightarrow> x2) orders,
                map (\<lambda>order. case boxes ! order of (x1, y1, x2, y2) \<Rightarrow> y2) orders))"

text \<open>
  The tensor operations \<open>_nms\<close> uses, on one-dimensional tensors: \<open>slice\<close>, \<open>gather\<close>,
  and a binary operation with broadcasting of a tensor of one element.
\<close>

definition slice :: "'a list \<Rightarrow> nat \<Rightarrow> nat option \<Rightarrow> 'a list" where
  "slice t begin count =
     (case count of None \<Rightarrow> drop begin t | Some n \<Rightarrow> take n (drop begin t))"

definition gather :: "'a list \<Rightarrow> nat list \<Rightarrow> 'a list" where
  "gather t indices = map (\<lambda>k. t ! k) indices"

definition broadcast :: "(real \<Rightarrow> real \<Rightarrow> real) \<Rightarrow> real list \<Rightarrow> real list \<Rightarrow> real list" where
  "broadcast f a b =
     (if length a = 1 then map (f (a ! 0)) b
      else if length b = 1 then map (\<lambda>x. f x (b ! 0)) a
      else map2 f a b)"

text \<open>
  \<open>inter.div(d)\<close>, element by element. \<open>inter\<close> is never negative, so a zero divisor
  gives NaN or \<open>Infinity\<close>, here \<open>None\<close>: both fail the comparison \<open><=\<close> in \<open>_where\<close>.
\<close>

definition tf_div :: "real list \<Rightarrow> real list \<Rightarrow> real option list" where
  "tf_div a b = map2 (\<lambda>x d. if d = 0 then None else Some (x / d)) a b"

text \<open>\<open>_where(ovr, nmsThr)\<close>: the positions whose value is at most the threshold.\<close>

definition where_le :: "real option list \<Rightarrow> real \<Rightarrow> nat list" where
  "where_le ovr nmsThr =
     filter (\<lambda>i. case ovr ! i of None \<Rightarrow> False | Some v \<Rightarrow> v \<le> nmsThr) [0..<length ovr]"

text \<open>
  One iteration of the \<open>while\<close> loop of \<open>_nms\<close>, after \<open>keep.push(order[0])\<close>, in two
  parts: the overlaps \<open>ovr\<close> of the kept box \<open>order[0]\<close> with the other candidates, and
  the next value of \<open>order\<close>. The area of the kept box is read as \<open>areas.slice(0, 1)\<close>,
  where \<open>areas\<close> is in the order of the boxes, not of \<open>order\<close>.
\<close>

definition nms_overlaps :: "box list \<Rightarrow> real list \<Rightarrow> nat list \<Rightarrow> js_error + real option list" where
  "nms_overlaps boxes areas order =
     (case getCurrentBox boxes (Some order) of
        Inl e \<Rightarrow> Inl e
      | Inr (x1, y1, x2, y2) \<Rightarrow>
          (let xx1 = broadcast max (slice x1 0 (Some 1)) (slice x1 1 None);
               yy1 = broadcast max (slice y1 0 (Some 1)) (slice y1 1 None);
               xx2 = broadcast min (slice x2 0 (Some 1)) (slice x2 1 None);
               yy2 = broadcast min (slice y2 0 (Some 1)) (slice y2 1 None);
               w = map (max 0) (map (\<lambda>v. v + 1) (map2 (-) xx2 xx1));
               h = map (max 0) (map (\<lambda>v. v + 1) (map2 (-) yy2 yy1));
               inter = map2 (*) w h
           in Inr (tf_div inter
                     (map2 (-)
                        (broadcast (+) (slice areas 0 (Some 1))
                           (slice (gather areas order) 1 None))
                        inter))))"

definition nms_iteration :: "box list \<Rightarrow> real list \<Rightarrow> real \<Rightarrow> nat list \<Rightarrow> js_error + nat list" where
  "nms_iteration boxes areas nmsThr order =
     (case nms_overlaps boxes areas order of
        Inl e \<Rightarrow> Inl e
      | Inr ovr \<Rightarrow>
          (let inds = where_le ovr nmsThr
           in Inr (gather order (map (\<lambda>k. k + 1) inds))))"

text \<open>Every iteration shortens \<open>order\<close>: the loop terminates.\<close>

lemma length_where_le: "length (where_le ovr nmsThr) \<le> length ovr"
  unfolding where_le_def by (rule order_trans [OF length_filter_le]) simp

lemma length_broadcast_slice:
  "length (broadcast f (slice a 0 (Some (Suc 0))) (slice a (Suc 0) None)) = length a - Suc 0"
  by (cases a) (simp_all add: broadcast_def slice_def)

lemma length_nms_overlaps:
  assumes "nms_overlaps boxes areas order = Inr ovr"
  shows "length ovr \<le> length order - 1"
proof -
  from assms obtain x1 y1 x2 y2 where
    cols: "getCurrentBox boxes (Some order) = Inr (x1, y1, x2, y2)"
    by (auto simp: nms_overlaps_def split: sum.splits)
  from cols have "length x2 = length order"
    by (auto simp: getCurrentBox_def split: if_splits)
  with assms cols show ?thesis
    by (auto simp: nms_overlaps_def Let_def tf_div_def length_broadcast_slice
          min_le_iff_disj)
qed

lemma nms_iteration_shorter:
  assumes "0 < length order" and "nms_iteration boxes areas nmsThr order = Inr order'"
  shows "length order' < length order"
proof -
  from assms(2) obtain ovr where
    ovr: "nms_overlaps boxes areas order = Inr ovr" and
    order': "order' = gather order (map (\<lambda>k. k + 1) (where_le ovr nmsThr))"
    by (auto simp: nms_iteration_def Let_def split: sum.splits)
  have "length order' \<le> length ovr"
    using length_where_le [of ovr nmsThr] by (simp add: order' gather_def)
  with length_nms_overlaps [OF ovr] assms(1) show ?thesis
    by arith
qed

function nms_loop ::
  "box list \<Rightarrow> real list \<Rightarrow> real \<Rightarrow> nat list \<Rightarrow> nat list \<Rightarrow> js_error + nat list" where
  "nms_loop boxes areas nmsThr order keep =
     (if length order > 0 then
        (case nms_iteration boxes areas nmsThr order of
           Inl e \<Rightarrow> Inl e
         | Inr order' \<Rightarrow> nms_loop boxes areas nmsThr order' (keep @ [order ! 0]))
      else Inr keep)"
  by pat_completeness auto
termination
  by (relation "measure (\<lambda>(boxes, areas, nmsThr, order, keep). length order)")
     (simp_all add: nms_iteration_shorter)

text \<open>\<open>_nms(boxes, scores, nmsThr)\<close>: the indices kept, or the error thrown.\<close>

definition nms :: "box list \<Rightarrow> real list \<Rightarrow> real \<Rightarrow> js_error + nat list" where
  "nms boxes scores nmsThr =
     (let order = argSort scores in
      case getCurrentBox boxes None of
        Inl e \<Rightarrow> Inl e
      | Inr (x1, y1, x2, y2) \<Rightarrow>
          (let areas = map2 (*) (map (\<lambda>v. v + 1) (map2 (-) x2 x1))
                                (map (\<lambda>v. v + 1) (map2 (-) y2 y1))
           in nms_loop boxes areas nmsThr order []))"

text \<open>
  \<open>_multiclassNmsClassAgnostic(boxes, scores, nmsThr, scoreThr)\<close>. \<open>clsBoxes[i]\<close> is
  \<open>undefined\<close> where the scores outnumber the boxes, and \<open>_nms\<close> then throws on it.
\<close>

definition multiclassNmsClassAgnostic ::
  "box list \<Rightarrow> real list \<Rightarrow> real \<Rightarrow> real \<Rightarrow> js_error + box list" where
  "multiclassNmsClassAgnostic boxes scores nmsThr scoreThr =
     (let valid = filter (\<lambda>i. scores ! i > scoreThr) [0..<length scores];
          validScores = map (\<lambda>i. scores ! i) valid;
          validBoxes = map (\<lambda>i. js_index boxes i) valid
      in if \<not> list_all (\<lambda>b. b \<noteq> None) validBoxes then Inl TypeError
         else
           (case nms (map the validBoxes) validScores nmsThr of
              Inl e \<Rightarrow> Inl e
            | Inr keep \<Rightarrow> Inr (map (\<lambda>targetIdx. map the validBoxes ! targetIdx) keep)))"

definition multiclassNms ::
  "box list \<Rightarrow> real list \<Rightarrow> real \<Rightarrow> real \<Rightarrow> js_error + box list" where
  "multiclassNms boxes scores nmsThr scoreThr =
     multiclassNmsClassAgnostic boxes scores nmsThr scoreThr"

section \<open>DetectionBase.js: clipping and the pipeline\<close>

text \<open>
  \<open>parseInt(x)\<close> of a number. JavaScript first writes the number as a string and then
  reads the integer at the start of the string. Zero and the numbers with
  \<open>1e-6 \<le> |x| < 1e21\<close> are written in plain decimal notation, so the digits before
  the point are read: the number truncated toward zero. Every other number is written
  with an exponent, as \<open>d.ddde-7\<close> or \<open>d.ddde+21\<close>, and the reading stops after its first
  digit \<open>d\<close>. (The digits are those of the exact value; the shortest string that a
  floating-point number is written with is not modelled.)
\<close>

definition plain_decimal :: "real \<Rightarrow> bool" where
  "plain_decimal x = (x = 0 \<or> (1 / 10 ^ 6 \<le> \<bar>x\<bar> \<and> \<bar>x\<bar> < 10 ^ 21))"

function leading_digit :: "real \<Rightarrow> int" where
  "leading_digit y =
     (if y \<le> 0 then 0
      else if 10 \<le> y then leading_digit (y / 10)
      else if y < 1 then leading_digit (y * 10)
      else \<lfloor>y\<rfloor>)"
  by pat_completeness auto
termination
proof (relation "measure (\<lambda>y. nat \<bar>\<lfloor>log 10 y\<rfloor>\<bar>)")
  show "wf (measure (\<lambda>y. nat \<bar>\<lfloor>log 10 y\<rfloor>\<bar>))"
    by simp
next
  fix y :: real
  assume "\<not> y \<le> 0" and "10 \<le> y"
  then have "log 10 (y / 10) = log 10 y - 1" and "1 \<le> log 10 y"
    by (simp_all add: log_divide le_log_iff)
  then have "\<lfloor>log 10 (y / 10)\<rfloor> = \<lfloor>log 10 y\<rfloor> - 1" and "1 \<le> \<lfloor>log 10 y\<rfloor>"
    by (simp_all add: le_floor_iff)
  then have "nat \<bar>\<lfloor>log 10 (y / 10)\<rfloor>\<bar> < nat \<bar>\<lfloor>log 10 y\<rfloor>\<bar>"
    by linarith
  then show "(y / 10, y) \<in> measure (\<lambda>y. nat \<bar>\<lfloor>log 10 y\<rfloor>\<bar>)"
    by simp
next
  fix y :: real
  assume "\<not> y \<le> 0" and "\<not> 10 \<le> y" and "y < 1"
  then have "log 10 (y * 10) = log 10 y + 1" and "log 10 y < 0"
    by (simp_all add: log_mult)
  then have "\<lfloor>log 10 (y * 10)\<rfloor> = \<lfloor>log 10 y\<rfloor> + 1" and "\<lfloor>log 10 y\<rfloor> < 0"
    by (simp_all add: floor_less_iff)
  then have "nat \<bar>\<lfloor>log 10 (y * 10)\<rfloor>\<bar> < nat \<bar>\<lfloor>log 10 y\<rfloor>\<bar>"
    by linarith
  then show "(y * 10, y) \<in> measure (\<lambda>y. nat \<bar>\<lfloor>log 10 y\<rfloor>\<bar>)"
    by simp
qed

definition parseInt :: "real \<Rightarrow> int" where
  "parseInt x =
     (if plain_decimal x then (if x < 0 then \<lceil>x\<rceil> else \<lfloor>x\<rfloor>)
      else if x < 0 then - leading_digit (- x)
      else leading_digit x)"

text \<open>
  \<open>_parseToXyxy(prediction, width, height)\<close>; \<open>width\<close> and \<open>height\<close> are the pixel
  dimensions of the image, integers.
\<close>

primrec parseToXyxy :: "box list \<Rightarrow> int \<Rightarrow> int \<Rightarrow> (int \<times> int \<times> int \<times> int) list" where
  "parseToXyxy [] width height = []"
| "parseToXyxy (p # prediction) width height =
     (case p of (x1, y1, x2, y2) \<Rightarrow>
        (let minX = (if x1 < 0 then 0 else parseInt x1);
             minY = (if y1 < 0 then 0 else parseInt y1);
             maxX = (if x2 > real_of_int width then width else parseInt x2);
             maxY = (if y2 > real_of_int height then height else parseInt y2)
         in (minX, minY, maxX, maxY))) # parseToXyxy prediction width height"

text \<open>\<open>_postProcess(cpuData, dims, inputSize, width, height, ratio)\<close>.\<close>

definition postProcess ::
  "real list \<Rightarrow> nat \<times> nat \<times> nat \<Rightarrow> nat \<times> nat \<Rightarrow> int \<Rightarrow> int \<Rightarrow> real
   \<Rightarrow> js_error + (int \<times> int \<times> int \<times> int) list" where
  "postProcess cpuData dims inputSize width height ratio =
     (case postProcess_scores cpuData dims inputSize of
        Inl e \<Rightarrow> Inl e
      | Inr (boxes, scores) \<Rightarrow>
          (let boxesXyxy = calcBbox boxes ratio in
           case multiclassNms boxesXyxy scores (45 / 100) (1 / 10) of
             Inl e \<Rightarrow> Inl e
           | Inr prediction \<Rightarrow> Inr (parseToXyxy prediction width height)))"

section \<open>The specification's reference notions\<close>

text \<open>
  Section 4.5, step 3: the probability of the best class of an anchor row
  \<open>[cx, cy, w, h, objectness, class0, class1, ...]\<close>.
\<close>

definition bestClassProbability :: "real list \<Rightarrow> real" where
  "bestClassProbability row = Max (set (drop 5 row))"

text \<open>
  The attributes \<open>[cx, cy, w, h, objectness, class0, ...]\<close> of anchor \<open>j\<close> in the flat output
  of a network with \<open>c\<close> attributes per anchor (dims \<open>[1, w, c]\<close>).
\<close>

definition anchor_row :: "real list \<Rightarrow> nat \<Rightarrow> nat \<Rightarrow> real list" where
  "anchor_row cpuData c j = take c (drop (j * c) cpuData)"

text \<open>
  Section 4.6: the area of a box and the overlap of two boxes, with the \<open>+1\<close> convention,
  and the greedy suppression over the candidates in descending order of score.
\<close>

definition box_area :: "box \<Rightarrow> real" where
  "box_area b = (case b of (x1, y1, x2, y2) \<Rightarrow> (x2 - x1 + 1) * (y2 - y1 + 1))"

definition intersection_area :: "box \<Rightarrow> box \<Rightarrow> real" where
  "intersection_area a b =
     (case a of (ax1, ay1, ax2, ay2) \<Rightarrow> case b of (bx1, by1, bx2, by2) \<Rightarrow>
        max 0 (min ax2 bx2 - max ax1 bx1 + 1) * max 0 (min ay2 by2 - max ay1 by1 + 1))"

definition iou :: "box \<Rightarrow> box \<Rightarrow> real" where
  "iou a b = intersection_area a b / (box_area a + box_area b - intersection_area a b)"

fun greedy_keep :: "box list \<Rightarrow> real \<Rightarrow> nat list \<Rightarrow> nat list" where
  "greedy_keep boxes iouThreshold [] = []"
| "greedy_keep boxes iouThreshold (i # candidates) =
     i # greedy_keep boxes iouThreshold
           (filter (\<lambda>j. iou (boxes ! i) (boxes ! j) \<le> iouThreshold) candidates)"

definition spec_nms :: "box list \<Rightarrow> real list \<Rightarrow> real \<Rightarrow> nat list" where
  "spec_nms boxes scores iouThreshold = greedy_keep boxes iouThreshold (argSort scores)"

text \<open>
  For comparison, the suppression that \<open>_nms\<close> is shown below to perform: greedy in the
  same way, but a candidate \<open>j\<close> is retained against the kept box \<open>i\<close> by an overlap
  computed with the area of box 0 in the place of the area of box \<open>i\<close> (and a zero
  divisor retains nothing).
\<close>

definition nms_retains :: "box list \<Rightarrow> real \<Rightarrow> nat \<Rightarrow> nat \<Rightarrow> bool" where
  "nms_retains boxes nmsThr i j =
     (let inter = intersection_area (boxes ! i) (boxes ! j);
          d = box_area (boxes ! 0) + box_area (boxes ! j) - inter
      in d \<noteq> 0 \<and> inter / d \<le> nmsThr)"

fun nms_greedy :: "box list \<Rightarrow> real \<Rightarrow> nat list \<Rightarrow> nat list" where
  "nms_greedy boxes nmsThr [] = []"
| "nms_greedy boxes nmsThr (i # candidates) =
     i # nms_greedy boxes nmsThr (filter (nms_retains boxes nmsThr i) candidates)"

declare parseToChar_loop.simps [simp del]

declare nms_loop.simps [simp del]

declare leading_digit.simps [simp del]

section \<open>The sequence decoder\<close>

lemma isValidChar_Some:
  "isValidChar this (Some ch) = admissible (validCharSet this) (inValidCharSet this) ch"
  by (simp add: isValidChar_def admissible_def)

lemma join_empty_append: "join_empty (xs @ ys) = join_empty xs @ join_empty ys"
  by (simp add: join_empty_def)

text \<open>
  The loop invariant: what the loop returns from position \<open>i\<close> on, joined, is what has
  been pushed so far, joined, followed by the reference decoding of the rest of the
  sequence.
\<close>

lemma parseToChar_loop_spec:
  "join_empty (parseToChar_loop this argmaxData charset i lastItem result) =
     join_empty result @
     spec_decode (validCharSet this) (inValidCharSet this) charset lastItem (drop i argmaxData)"
proof (induction this argmaxData charset i lastItem result rule: parseToChar_loop.induct)
  case (1 this argmaxData charset i lastItem result)
  show ?case
  proof (cases "i < length argmaxData")
    case False
    then show ?thesis
      by (simp add: parseToChar_loop.simps [of this argmaxData charset i])
  next
    case True
    then have dr: "drop i argmaxData = argmaxData ! i # drop (i + 1) argmaxData"
      by (simp add: Cons_nth_drop_Suc)
    show ?thesis
    proof (cases "argmaxData ! i = lastItem")
      case same: True
      with True "1.IH"(1) dr show ?thesis
        by (simp add: parseToChar_loop.simps [of this argmaxData charset i])
    next
      case differ: False
      show ?thesis
      proof (cases "argmaxData ! i \<noteq> 0 \<and> isValidChar this (js_index charset (argmaxData ! i))")
        case push: True
        with True differ "1.IH"(2) [OF True differ refl push] dr show ?thesis
          by (cases "js_index charset (argmaxData ! i)")
             (simp_all add: parseToChar_loop.simps [of this argmaxData charset i]
                join_empty_append isValidChar_Some, simp_all add: join_empty_def)
      next
        case skip: False
        with True differ "1.IH"(3) [OF True differ refl skip] dr show ?thesis
          by (cases "js_index charset (argmaxData ! i)")
             (auto simp add: parseToChar_loop.simps [of this argmaxData charset i]
                join_empty_append isValidChar_Some)
      qed
    qed
  qed
qed

text \<open>
  Claim C4. For every argmax index sequence and every charset array, the string
  \<open>_parseToChar\<close> returns is the result of the reference algorithm of section 4.4: a
  scan from the left with \<open>lastEmittedIndex\<close> starting at 0, where an index equal to
  \<open>lastEmittedIndex\<close> is skipped, and otherwise becomes \<open>lastEmittedIndex\<close> and appends
  its character exactly when it is not 0 and the character is admissible (not in the
  invalid set, and the valid set is empty or holds it).
\<close>

theorem parseToChar_refines_spec:
  "parseToChar this argmaxData charset =
     spec_decode (validCharSet this) (inValidCharSet this) charset 0 argmaxData"
  unfolding parseToChar_def parseToChar_loop_spec by (simp add: join_empty_def)

theorem parseToChar_refines_spec_witness:
  "parseToChar (setValidCharSet ''c'' (new_OCRBase [] [])) [0, 1, 3, 3, 0, 3, 7]
     ['''', ''a'', ''b'', ''c''] = ''cc''"
  using parseToChar_refines_spec
    [of "setValidCharSet ''c'' (new_OCRBase [] [])" "[0, 1, 3, 3, 0, 3, 7]"
        "['''', ''a'', ''b'', ''c'']"]
  by (simp add: js_index_def admissible_def setValidCharSet_def new_OCRBase_def new_Set_def)

text \<open>
  Claim C2, as amended. On the index sequence \<open>[0,0,3,3,0,5,5,5,3]\<close>, with a charset
  that maps 3 to \<open>c\<close> and 5 to \<open>e\<close> and with both character sets empty, the decoder
  returns \<open>cec\<close>: the final 3 differs from the 5 before it, so its character is
  appended again. (The specification's example gives \<open>ce\<close>.)
\<close>

theorem parseToChar_example:
  assumes "5 < length charset" and "charset ! 3 = ''c''" and "charset ! 5 = ''e''"
    and "validCharSet this = {}" and "inValidCharSet this = {}"
  shows "parseToChar this [0, 0, 3, 3, 0, 5, 5, 5, 3] charset = ''cec''"
  using assms
  by (simp add: parseToChar_def parseToChar_loop.simps join_empty_def js_index_def
        isValidChar_def Let_def)

theorem parseToChar_example_witness:
  "parseToChar (new_OCRBase ''common.onnx'' ''charsets.json'') [0, 0, 3, 3, 0, 5, 5, 5, 3]
     ['''', ''a'', ''b'', ''c'', ''d'', ''e'', ''f''] = ''cec''"
  using parseToChar_example
    [of "['''', ''a'', ''b'', ''c'', ''d'', ''e'', ''f'']"
        "new_OCRBase ''common.onnx'' ''charsets.json''"]
  by (simp add: new_OCRBase_def)

theorem parseToChar_example_counterexample:
  "parseToChar (new_OCRBase [] []) [0, 0, 3, 3, 0, 5, 5, 5, 3]
     ['''', ''a'', ''b'', ''c'', ''d'', ''e''] \<noteq> ''ce''"
  by (simp add: parseToChar_def parseToChar_loop.simps join_empty_def js_index_def
        isValidChar_def new_OCRBase_def Let_def)

section \<open>The character sets\<close>

lemma setRanges_valid_code:
  "setRanges (JNumber (Finite 0)) this = (None, setValidCharSet NUM_CASE this)"
  "setRanges (JNumber (Finite 1)) this = (None, setValidCharSet LOWWER_CASE this)"
  "setRanges (JNumber (Finite 2)) this = (None, setValidCharSet UPPER_CASE this)"
  "setRanges (JNumber (Finite 3)) this = (None, setValidCharSet MIX_LOWWER_UPPER_CASE this)"
  "setRanges (JNumber (Finite 4)) this = (None, setValidCharSet MIX_LOWWER_NUM_CASE this)"
  "setRanges (JNumber (Finite 5)) this = (None, setValidCharSet MIX_UPPER_NUM_CASE this)"
  "setRanges (JNumber (Finite 6)) this = (None, setValidCharSet MIX_LOWER_UPPER_NUM_CASE this)"
  by (simp_all add: setRanges_def)

lemma setRanges_code_7:
  "setRanges (JNumber (Finite 7)) this =
     (None, setInValidCharset MIX_LOWER_UPPER_NUM_CASE this)"
  by (simp add: setRanges_def)

lemma setRanges_JString:
  "setRanges (JString s) this = (None, setValidCharSet s this)"
  by (simp add: setRanges_def)

lemma setRanges_throws:
  "fst (setRanges v this) \<noteq> None \<Longrightarrow>
     setRanges v this = (Some (Error ''Not support type''), this)"
  by (cases v) (auto simp: setRanges_def split: if_splits)

lemmas charset_constants =
  NUM_CASE_def LOWWER_CASE_def UPPER_CASE_def MIX_LOWWER_UPPER_CASE_def
  MIX_LOWWER_NUM_CASE_def MIX_UPPER_NUM_CASE_def MIX_LOWER_UPPER_NUM_CASE_def

text \<open>
  Claim C6, as amended. From every state of the object, \<open>setRanges\<close> with a code from 0
  to 6 makes the valid set the digits; the lowercase letters; the uppercase letters;
  lowercase and uppercase; lowercase and digits; uppercase and digits; lowercase,
  uppercase and digits. Code 7 makes the invalid set lowercase, uppercase and digits
  and leaves the valid set as it was: empty on a newly constructed object, not in
  general. A string makes exactly its characters the valid set.
\<close>

theorem setRanges_sets:
  "validCharSet (snd (setRanges (JNumber (Finite 0)) this)) = new_Set ''0123456789''
   \<and> validCharSet (snd (setRanges (JNumber (Finite 1)) this)) =
       new_Set ''abcdefghijklmnopqrstuvwxyz''
   \<and> validCharSet (snd (setRanges (JNumber (Finite 2)) this)) =
       new_Set ''ABCDEFGHIJKLMNOPQRSTUVWXYZ''
   \<and> validCharSet (snd (setRanges (JNumber (Finite 3)) this)) =
       new_Set ''abcdefghijklmnopqrstuvwxyzABCDEFGHIJKLMNOPQRSTUVWXYZ''
   \<and> validCharSet (snd (setRanges (JNumber (Finite 4)) this)) =
       new_Set ''abcdefghijklmnopqrstuvwxyz0123456789''
   \<and> validCharSet (snd (setRanges (JNumber (Finite 5)) this)) =
       new_Set ''ABCDEFGHIJKLMNOPQRSTUVWXYZ0123456789''
   \<and> validCharSet (snd (setRanges (JNumber (Finite 6)) this)) =
       new_Set ''abcdefghijklmnopqrstuvwxyzABCDEFGHIJKLMNOPQRSTUVWXYZ0123456789''
   \<and> inValidCharSet (snd (setRanges (JNumber (Finite 7)) this)) =
       new_Set ''abcdefghijklmnopqrstuvwxyzABCDEFGHIJKLMNOPQRSTUVWXYZ0123456789''
   \<and> validCharSet (snd (setRanges (JNumber (Finite 7)) this)) = validCharSet this
   \<and> validCharSet (snd (setRanges (JNumber (Finite 7)) (new_OCRBase onnxPath charsetFile))) = {}
   \<and> validCharSet (snd (setRanges (JString s) this)) = new_Set s
   \<and> new_Set s = {[c] |c. c \<in> set s}"
proof -
  have "validCharSet (setValidCharSet cs this) = new_Set cs" for cs
    by (simp add: setValidCharSet_def)
  moreover have "inValidCharSet (setInValidCharset cs this) = new_Set cs
    \<and> validCharSet (setInValidCharset cs this) = validCharSet this" for cs this
    by (simp add: setInValidCharset_def)
  moreover have "validCharSet (new_OCRBase onnxPath charsetFile) = {}"
    by (simp add: new_OCRBase_def)
  moreover have "new_Set s = {[c] |c. c \<in> set s}"
    by (auto simp: new_Set_def)
  ultimately show ?thesis
    by (simp add: setRanges_valid_code setRanges_code_7 setRanges_JString charset_constants)
qed

theorem setRanges_sets_witness:
  "validCharSet (snd (setRanges (JString ''ab3'') (new_OCRBase [] []))) = {''a'', ''b'', ''3''}
   \<and> validCharSet (snd (setRanges (JNumber (Finite 0)) (new_OCRBase [] []))) =
       {''0'', ''1'', ''2'', ''3'', ''4'', ''5'', ''6'', ''7'', ''8'', ''9''}"
  using setRanges_sets [of "new_OCRBase [] []" "[]" "[]" "''ab3''"]
  by (simp add: new_Set_def)

theorem setRanges_sets_counterexample:
  "validCharSet (snd (setRanges (JNumber (Finite 7))
     (snd (setRanges (JNumber (Finite 0)) (new_OCRBase [] []))))) \<noteq> {}"
  by (simp add: setRanges_valid_code setRanges_code_7 setValidCharSet_def
        setInValidCharset_def new_Set_def NUM_CASE_def)

text \<open>
  Claim C8. \<open>setRanges\<close> called with a number other than 0, ..., 7 (99, say), or with a
  value that is neither a number nor a string (\<open>true\<close>, say), throws the error of the
  unsupported range, \<open>Error('Not support type')\<close>, and leaves the object as it was.
\<close>

theorem setRanges_unsupported:
  assumes "(\<exists>n. charsetRange = JNumber n \<and> n \<notin> Finite ` {0, 1, 2, 3, 4, 5, 6, 7})
           \<or> (typeof charsetRange \<noteq> ''number'' \<and> typeof charsetRange \<noteq> ''string'')"
  shows "setRanges charsetRange this = (Some (Error ''Not support type''), this)"
  using assms by (auto simp: setRanges_def)

theorem setRanges_unsupported_witness:
  "setRanges (JNumber (Finite 99)) (new_OCRBase [] []) =
     (Some (Error ''Not support type''), new_OCRBase [] [])
   \<and> setRanges (JBoolean True) (new_OCRBase [] []) =
     (Some (Error ''Not support type''), new_OCRBase [] [])"
  using setRanges_unsupported [of "JNumber (Finite 99)" "new_OCRBase [] []"]
    setRanges_unsupported [of "JBoolean True" "new_OCRBase [] []"]
  by simp

text \<open>
  Claim C10. A call of \<open>setRanges\<close> changes at most one of the two character sets. From
  every state, a code from 0 to 6 or a string replaces the valid set (by a set that
  does not depend on the state) and leaves the invalid set as it was; code 7 replaces
  the invalid set and leaves the valid set as it was; a call that throws leaves the
  object as it was. So the valid set is empty after code 7 exactly when it was empty
  before.
\<close>

theorem setRanges_frame:
  "(\<forall>v. v \<in> JNumber ` Finite ` {0, 1, 2, 3, 4, 5, 6} \<union> range JString \<longrightarrow>
         fst (setRanges v this) = None
         \<and> inValidCharSet (snd (setRanges v this)) = inValidCharSet this
         \<and> validCharSet (snd (setRanges v this)) = validCharSet (snd (setRanges v that)))
   \<and> fst (setRanges (JNumber (Finite 7)) this) = None
   \<and> validCharSet (snd (setRanges (JNumber (Finite 7)) this)) = validCharSet this
   \<and> inValidCharSet (snd (setRanges (JNumber (Finite 7)) this)) =
       inValidCharSet (snd (setRanges (JNumber (Finite 7)) that))
   \<and> (\<forall>v. fst (setRanges v this) \<noteq> None \<longrightarrow> snd (setRanges v this) = this)
   \<and> (\<forall>v. validCharSet (snd (setRanges v this)) = validCharSet this
            \<or> inValidCharSet (snd (setRanges v this)) = inValidCharSet this)
   \<and> (\<forall>v. ocrOnnxPath (snd (setRanges v this)) = ocrOnnxPath this
            \<and> charsetPath (snd (setRanges v this)) = charsetPath this)
   \<and> ((validCharSet (snd (setRanges (JNumber (Finite 7)) this)) = {}) =
       (validCharSet this = {}))"
proof -
  have valid: "inValidCharSet (setValidCharSet cs this) = inValidCharSet this
    \<and> validCharSet (setValidCharSet cs this) = validCharSet (setValidCharSet cs that)
    \<and> ocrOnnxPath (setValidCharSet cs this) = ocrOnnxPath this
    \<and> charsetPath (setValidCharSet cs this) = charsetPath this" for cs
    by (simp add: setValidCharSet_def)
  have invalid: "validCharSet (setInValidCharset cs this) = validCharSet this
    \<and> inValidCharSet (setInValidCharset cs this) = inValidCharSet (setInValidCharset cs that)
    \<and> ocrOnnxPath (setInValidCharset cs this) = ocrOnnxPath this
    \<and> charsetPath (setInValidCharset cs this) = charsetPath this" for cs
    by (simp add: setInValidCharset_def)
  have throws: "snd (setRanges v this) = this" if "fst (setRanges v this) \<noteq> None" for v
    using setRanges_throws [OF that] by simp
  have cases: "fst (setRanges v this) \<noteq> None
    \<or> (\<exists>cs. \<forall>x. setRanges v x = (None, setValidCharSet cs x))
    \<or> (\<exists>cs. \<forall>x. setRanges v x = (None, setInValidCharset cs x))" for v
    by (cases v) (auto simp: setRanges_def)
  have one: "validCharSet (snd (setRanges v this)) = validCharSet this
    \<or> inValidCharSet (snd (setRanges v this)) = inValidCharSet this" for v
    using cases [of v] throws [of v] valid invalid by auto
  have paths: "ocrOnnxPath (snd (setRanges v this)) = ocrOnnxPath this
    \<and> charsetPath (snd (setRanges v this)) = charsetPath this" for v
    using cases [of v] throws [of v] valid invalid by auto
  have codes: "fst (setRanges v this) = None
    \<and> inValidCharSet (snd (setRanges v this)) = inValidCharSet this
    \<and> validCharSet (snd (setRanges v this)) = validCharSet (snd (setRanges v that))"
    if "v \<in> JNumber ` Finite ` {0, 1, 2, 3, 4, 5, 6} \<union> range JString" for v
    using that valid by (auto simp: setRanges_valid_code setRanges_JString)
  show ?thesis
    using codes throws one paths invalid by (simp add: setRanges_code_7)
qed

theorem setRanges_frame_witness:
  "inValidCharSet (snd (setRanges (JString ''ab3'')
      (snd (setRanges (JNumber (Finite 7)) (new_OCRBase [] []))))) =
     inValidCharSet (snd (setRanges (JNumber (Finite 7)) (new_OCRBase [] [])))
   \<and> validCharSet (snd (setRanges (JNumber (Finite 7))
      (snd (setRanges (JNumber (Finite 0)) (new_OCRBase [] []))))) =
     validCharSet (snd (setRanges (JNumber (Finite 0)) (new_OCRBase [] [])))
   \<and> snd (setRanges (JBoolean True) (snd (setRanges (JNumber (Finite 0)) (new_OCRBase [] []))))
     = snd (setRanges (JNumber (Finite 0)) (new_OCRBase [] []))"
proof -
  have "JString ''ab3'' \<in> JNumber ` Finite ` {0, 1, 2, 3, 4, 5, 6} \<union> range JString"
    by simp
  moreover have "fst (setRanges (JBoolean True)
      (snd (setRanges (JNumber (Finite 0)) (new_OCRBase [] [])))) \<noteq> None"
    by (simp add: setRanges_def)
  ultimately show ?thesis
    using setRanges_frame
      [of "snd (setRanges (JNumber (Finite 7)) (new_OCRBase [] []))" "new_OCRBase [] []"]
      setRanges_frame
      [of "snd (setRanges (JNumber (Finite 0)) (new_OCRBase [] []))" "new_OCRBase [] []"]
    by simp
qed

section \<open>Box decoding and clipping\<close>

text \<open>
  Claim C3, as amended. For the centre-form box \<open>(cx=100, cy=100, w=40, h=20)\<close> the
  corner form before the division by \<open>ratio\<close> is \<open>(80, 90, 120, 110)\<close>, and for
  \<open>ratio = 0.5\<close> the box returned, after the division, is \<open>(160, 180, 240, 220)\<close>.
\<close>

theorem calcBbox_example:
  "calcBbox [(100, 100, 40, 20)] ratio = [(80 / ratio, 90 / ratio, 120 / ratio, 110 / ratio)]
   \<and> calcBbox [(100, 100, 40, 20)] (1 / 2) = [(160, 180, 240, 220)]"
  by simp

theorem calcBbox_example_witness:
  "calcBbox [(100, 100, 40, 20)] 1 = [(80, 90, 120, 110)]
   \<and> calcBbox [(100, 100, 40, 20)] (1 / 4) = [(320, 360, 480, 440)]"
  using calcBbox_example [of 1] calcBbox_example [of "1 / 4"] by simp

theorem calcBbox_example_counterexample:
  "calcBbox [(100, 100, 40, 20)] (1 / 2) \<noteq> [(320, 360, 480, 440)]"
  by simp

text \<open>
  Where every coordinate is written in plain decimal notation, \<open>_parseToXyxy\<close> truncates
  each coordinate toward zero and clamps it: \<open>x1\<close> and \<open>y1\<close> from below at 0, \<open>x2\<close> and
  \<open>y2\<close> from above at the width and the height.
\<close>

lemma parseInt_bounds:
  assumes "plain_decimal x"
  shows "x < 0 \<Longrightarrow> real_of_int (parseInt x) - 1 < x \<and> x \<le> real_of_int (parseInt x)"
    and "\<not> x < 0 \<Longrightarrow> real_of_int (parseInt x) \<le> x \<and> x < real_of_int (parseInt x) + 1"
  using assms ceiling_correct [of x] floor_correct [of x] by (simp_all add: parseInt_def)

lemma parseInt_clamp_low:
  assumes "plain_decimal x"
  shows "(if x < 0 then 0 else parseInt x) = max 0 (parseInt x)"
proof (cases "x < 0")
  case True
  with parseInt_bounds(1) [OF assms] have "real_of_int (parseInt x) < 1" by linarith
  then have "parseInt x \<le> 0" by linarith
  with True show ?thesis by simp
next
  case False
  with parseInt_bounds(2) [OF assms] have "- 1 < real_of_int (parseInt x)" by linarith
  then have "0 \<le> parseInt x" by linarith
  with False show ?thesis by simp
qed

lemma parseInt_clamp_high:
  assumes "plain_decimal x"
  shows "(if x > real_of_int w then w else parseInt x) = min w (parseInt x)"
proof (cases "x > real_of_int w")
  case True
  have "real_of_int w < real_of_int (parseInt x) + 1"
    using True parseInt_bounds [OF assms] by (cases "x < 0") linarith+
  then have "w \<le> parseInt x" by linarith
  with True show ?thesis by simp
next
  case False
  have "real_of_int (parseInt x) - 1 < real_of_int w"
    using False parseInt_bounds [OF assms] by (cases "x < 0") linarith+
  then have "parseInt x \<le> w" by linarith
  with False show ?thesis by simp
qed

lemma parseInt_truncates:
  assumes "plain_decimal x"
  shows "\<bar>real_of_int (parseInt x)\<bar> \<le> \<bar>x\<bar> \<and> \<bar>x - real_of_int (parseInt x)\<bar> < 1"
proof (cases "x < 0")
  case True
  with parseInt_bounds(1) [OF assms] have "real_of_int (parseInt x) < 1" by linarith
  then have "parseInt x \<le> 0" by linarith
  with True parseInt_bounds(1) [OF assms] show ?thesis by linarith
next
  case False
  with parseInt_bounds(2) [OF assms] have "- 1 < real_of_int (parseInt x)" by linarith
  then have "0 \<le> parseInt x" by linarith
  with False parseInt_bounds(2) [OF assms] show ?thesis by linarith
qed

lemma parseToXyxy_plain_decimal:
  assumes "list_all (\<lambda>(x1, y1, x2, y2).
             plain_decimal x1 \<and> plain_decimal y1 \<and> plain_decimal x2 \<and> plain_decimal y2)
           prediction"
  shows "parseToXyxy prediction width height =
     map (\<lambda>(x1, y1, x2, y2).
            (max 0 (parseInt x1), max 0 (parseInt y1),
             min width (parseInt x2), min height (parseInt y2))) prediction"
    and "list_all (\<lambda>(minX, minY, maxX, maxY).
                  0 \<le> minX \<and> 0 \<le> minY \<and> maxX \<le> width \<and> maxY \<le> height)
           (parseToXyxy prediction width height)"
  using assms
  by (induction prediction)
     (auto simp: Let_def parseInt_clamp_low parseInt_clamp_high
           simp del: max.absorb1 max.absorb2 min.absorb1 min.absorb2)

text \<open>
  Claim C7 (a defect of the code). The claim's example holds: the box
  \<open>[-5, -5, 500, 500]\<close> in an image of 416 by 416 becomes \<open>[0, 0, 416, 416]\<close>. But
  \<open>_parseToXyxy\<close> does not truncate every coordinate: \<open>parseInt\<close> reads the string of
  the number, and a coordinate below \<open>1e-6\<close> is written with an exponent. The coordinate
  \<open>x1 = 2^-21\<close>, written \<open>4.76837158203125e-7\<close>, becomes 4 and not 0, and \<open>5e-7\<close> becomes
  5. As \<open>x2\<close> in an image of width 3, \<open>2^-21\<close> is not above the width, and becomes 4,
  which is.
\<close>

theorem parseToXyxy_reads_the_leading_digit:
  "parseToXyxy [(1 / 2 ^ 21, 0, 10, 10)] 10 10 = [(4, 0, 10, 10)]
   \<and> parseToXyxy [(5 / 10 ^ 7, 0, 10, 10)] 10 10 = [(5, 0, 10, 10)]
   \<and> parseToXyxy [(0, 0, 1 / 2 ^ 21, 3)] 3 3 = [(0, 0, 4, 3)]
   \<and> parseToXyxy [(- 5, - 5, 500, 500)] 416 416 = [(0, 0, 416, 416)]
   \<and> parseToXyxy [(27 / 10, - 27 / 10, 4159 / 10, 500), (- 1 / 2, 3, - 7 / 2, 416)] 416 416 =
       [(2, 0, 415, 416), (0, 3, - 3, 416)]"
  by (simp add: parseInt_def plain_decimal_def leading_digit.simps)

section \<open>The scores\<close>

lemma length_decode_anchor: "length (decode_anchor out grid s) = length out"
  by (simp add: decode_anchor_def)

lemma nth_decode_anchor: "4 \<le> k \<Longrightarrow> decode_anchor out grid s ! k = out ! k"
  by (simp add: decode_anchor_def)

lemma scores_of_columns:
  "list_all (\<lambda>row. 6 \<le> length row) t \<Longrightarrow>
     concat (map2 (map2 (*)) (map (\<lambda>row. take 1 (drop 4 row)) t)
                              (map (\<lambda>row. take 1 (drop 5 row)) t)) =
     map (\<lambda>row. row ! 4 * row ! 5) t"
proof (induction t)
  case Nil
  then show ?case by simp
next
  case (Cons row t)
  then have "6 \<le> length row" by simp
  then have "take 1 (drop 4 row) = [row ! 4]" "take 1 (drop 5 row) = [row ! 5]"
    by (simp_all add: take_Suc_conv_app_nth)
  with Cons show ?case by simp
qed

lemma postProcess_scores_Inr:
  assumes "postProcess_scores cpuData (h, w, c) inputSize = Inr (boxes, scores)"
  shows "length cpuData = h * w * c" and "0 < h" and "0 < w" and "6 \<le> c"
    and "scores = map (\<lambda>j. cpuData ! (j * c + 4) * cpuData ! (j * c + 5)) [0..<w]"
proof -
  from assms obtain predictions where
    demo: "demoPostProcess cpuData (h, w, c) inputSize = Inr predictions"
    by (auto simp: postProcess_scores_def split: sum.splits)
  from demo show len: "length cpuData = h * w * c" and h: "0 < h"
    by (auto simp: demoPostProcess_def reshape3_def split: if_splits sum.splits)
  from demo len h have predictions:
    "predictions = map (\<lambda>j. decode_anchor (map (\<lambda>k. cpuData ! (j * c + k)) [0..<c])
         (flatGrids inputSize ! j) (flatExpandedStrides inputSize ! j)) [0..<w]"
    by (auto simp: demoPostProcess_def reshape3_def split: if_splits)
  from assms demo obtain objectness classProbability where
    s4: "slice_columns predictions 4 1 = Inr objectness" and
    s5: "slice_columns predictions 5 1 = Inr classProbability" and
    scores: "scores = concat (map2 (map2 (*)) objectness classProbability)"
    by (auto simp: postProcess_scores_def split: sum.splits)
  from s5 have nonempty: "predictions \<noteq> []" and
    wide: "list_all (\<lambda>row. 6 \<le> length row) predictions"
    by (auto simp: slice_columns_def split: if_splits)
  from nonempty predictions show w: "0 < w" by simp
  from wide predictions w show c: "6 \<le> c"
    by (auto simp: list_all_iff length_decode_anchor)
  from s4 s5 have "objectness = map (\<lambda>row. take 1 (drop 4 row)) predictions"
    "classProbability = map (\<lambda>row. take 1 (drop 5 row)) predictions"
    by (auto simp: slice_columns_def split: if_splits)
  with scores scores_of_columns [OF wide]
  have "scores = map (\<lambda>row. row ! 4 * row ! 5) predictions"
    by simp
  with c show "scores = map (\<lambda>j. cpuData ! (j * c + 4) * cpuData ! (j * c + 5)) [0..<w]"
    by (simp add: predictions nth_decode_anchor)
qed

lemma nth_anchor_row:
  assumes "length cpuData = h * w * c" "0 < h" "j < w" "k < c"
  shows "anchor_row cpuData c j ! k = cpuData ! (j * c + k)"
    and "length (anchor_row cpuData c j) = c"
proof -
  have "Suc j * c \<le> w * c"
    using assms(3) by (intro mult_le_mono1) simp
  then have "j * c + c \<le> w * c"
    by simp
  also have "\<dots> \<le> h * (w * c)"
    using assms(2) by simp
  finally have "j * c + c \<le> length cpuData"
    using assms(1) by (simp add: mult.assoc)
  then show "anchor_row cpuData c j ! k = cpuData ! (j * c + k)"
    and "length (anchor_row cpuData c j) = c"
    using assms(4) by (simp_all add: anchor_row_def)
qed

text \<open>The decoding succeeds on every tensor of the right shape.\<close>

lemma postProcess_scores_succeeds:
  assumes "length cpuData = h * w * c" and "0 < h" and "0 < w"
    and "w \<le> length (flatGrids inputSize)" and "6 \<le> c"
  shows "\<exists>boxes scores. postProcess_scores cpuData (h, w, c) inputSize = Inr (boxes, scores)"
proof -
  define predictions where
    "predictions = map (\<lambda>j. decode_anchor (map (\<lambda>k. cpuData ! (j * c + k)) [0..<c])
         (flatGrids inputSize ! j) (flatExpandedStrides inputSize ! j)) [0..<w]"
  have demo: "demoPostProcess cpuData (h, w, c) inputSize = Inr predictions"
    using assms(1,2,4) by (simp add: demoPostProcess_def reshape3_def predictions_def)
  have "predictions \<noteq> []"
    using assms(3) by (simp add: predictions_def)
  moreover have "list_all (\<lambda>row. b + n \<le> length row) predictions" if "b + n \<le> 6" for b n
    using that assms(5) by (simp add: predictions_def list_all_iff length_decode_anchor)
  ultimately have "\<exists>cols. slice_columns predictions b n = Inr cols" if "b + n \<le> 6" for b n
    using that by (simp add: slice_columns_def)
  from this [of 0 4] this [of 4 1] this [of 5 1] show ?thesis
    by (auto simp: postProcess_scores_def demo)
qed

lemma cells8: "flatGrids (8, 8) = [(0, 0)]" "flatExpandedStrides (8, 8) = [8]"
  by (simp_all add: flatGrids_def flatExpandedStrides_def strides_def grid_cells_def)

lemma demoPostProcess_two_classes:
  "demoPostProcess [0, 0, 0, 0, 1, 1 / 4, 1 / 2] (1, 1, 7) (8, 8) =
     Inr [[0, 0, 8, 8, 1, 1 / 4, 1 / 2]]"
  by (simp add: demoPostProcess_def reshape3_def cells8 decode_anchor_def
        adjustBoundingBoxCoordinates_def upt_conv_Cons)

text \<open>
  Claim C1, as amended. For every output tensor that \<open>_postProcess\<close> decodes, there is
  one score per anchor, and the score of an anchor before the suppression is the
  product of its objectness (column 4) and of the probability of its first class
  (column 5). That is the probability of its best class when the output has one class
  column (six attributes per anchor); further class columns are not read.
\<close>

theorem postProcess_scores_objectness_times_class0:
  assumes "postProcess_scores cpuData (h, w, c) inputSize = Inr (boxes, scores)"
  shows "length scores = w
    \<and> (\<forall>j<w. scores ! j = anchor_row cpuData c j ! 4 * anchor_row cpuData c j ! 5
          \<and> (c = 6 \<longrightarrow> scores ! j =
                anchor_row cpuData c j ! 4 * bestClassProbability (anchor_row cpuData c j)))"
proof -
  note ok = postProcess_scores_Inr [OF assms]
  have "length scores = w"
    by (simp add: ok(5))
  moreover have "scores ! j = anchor_row cpuData c j ! 4 * anchor_row cpuData c j ! 5"
    if "j < w" for j
    using that ok(4) by (simp add: ok(5) nth_anchor_row [OF ok(1) ok(2) that])
  moreover have "bestClassProbability (anchor_row cpuData c j) = anchor_row cpuData c j ! 5"
    if "j < w" "c = 6" for j
  proof -
    have "length (anchor_row cpuData c j) = 6"
      using nth_anchor_row(2) [OF ok(1) ok(2) that(1), of 0] that(2) by simp
    then have "drop 5 (anchor_row cpuData c j) = [anchor_row cpuData c j ! 5]"
      using Cons_nth_drop_Suc [of 5 "anchor_row cpuData c j"] by simp
    then show ?thesis
      by (simp add: bestClassProbability_def)
  qed
  ultimately show ?thesis
    by simp
qed

lemma demoPostProcess_one_class:
  "demoPostProcess [0, 0, 0, 0, 1 / 2, 1 / 2] (1, 1, 6) (8, 8) =
     Inr [[0, 0, 8, 8, 1 / 2, 1 / 2]]"
  by (simp add: demoPostProcess_def reshape3_def cells8 decode_anchor_def
        adjustBoundingBoxCoordinates_def upt_conv_Cons)

lemma postProcess_scores_one_class:
  "postProcess_scores [0, 0, 0, 0, 1 / 2, 1 / 2] (1, 1, 6) (8, 8) =
     Inr ([(0, 0, 8, 8)], [1 / 4])"
  unfolding postProcess_scores_def demoPostProcess_one_class
  by (simp add: slice_columns_def box_of_row_def)

theorem postProcess_scores_objectness_times_class0_witness:
  "postProcess_scores [0, 0, 0, 0, 1 / 2, 1 / 2] (1, 1, 6) (8, 8) =
     Inr ([(0, 0, 8, 8)], [1 / 4])
   \<and> [1 / 4 :: real] ! 0 =
       anchor_row [0, 0, 0, 0, 1 / 2, 1 / 2] 6 0 ! 4 *
       bestClassProbability (anchor_row [0, 0, 0, 0, 1 / 2, 1 / 2] 6 0)"
  using postProcess_scores_objectness_times_class0 [OF postProcess_scores_one_class]
    postProcess_scores_one_class
  by simp

theorem postProcess_scores_counterexample:
  "postProcess_scores [0, 0, 0, 0, 1, 1 / 4, 1 / 2] (1, 1, 7) (8, 8) = Inr ([(0, 0, 8, 8)], [1 / 4])
   \<and> 1 * bestClassProbability [0, 0, 0, 0, 1, 1 / 4, 1 / 2] = 1 / 2"
  unfolding postProcess_scores_def demoPostProcess_two_classes
  by (simp add: slice_columns_def box_of_row_def bestClassProbability_def)

section \<open>Non-maximum suppression\<close>

text \<open>
  What \<open>_nms\<close> computes. \<open>_where\<close> and the two \<open>gather\<close>s filter the candidates; the
  overlaps are those of the kept box with each candidate, except for the area.
\<close>

lemma gather_where:
  "map (\<lambda>k. xs ! k) (filter (\<lambda>k. Q (xs ! k)) [0..<length xs]) = filter Q xs"
proof (induction xs rule: rev_induct)
  case Nil
  then show ?case by simp
next
  case (snoc x xs)
  have "filter (\<lambda>k. Q ((xs @ [x]) ! k)) [0..<length xs] = filter (\<lambda>k. Q (xs ! k)) [0..<length xs]"
    by (rule filter_cong) (simp_all add: nth_append)
  moreover have "map (\<lambda>k. (xs @ [x]) ! k) (filter (\<lambda>k. Q (xs ! k)) [0..<length xs]) =
      map (\<lambda>k. xs ! k) (filter (\<lambda>k. Q (xs ! k)) [0..<length xs])"
    by (rule map_cong) (simp_all add: nth_append)
  ultimately show ?case
    using snoc.IH by simp
qed

lemma getCurrentBox_in_range:
  assumes "list_all (\<lambda>order. order < length boxes) orders"
  shows "getCurrentBox boxes (Some orders) =
     Inr (map (\<lambda>k. fst (boxes ! k)) orders,
          map (\<lambda>k. fst (snd (boxes ! k))) orders,
          map (\<lambda>k. fst (snd (snd (boxes ! k)))) orders,
          map (\<lambda>k. snd (snd (snd (boxes ! k)))) orders)"
  using assms by (simp add: getCurrentBox_def case_prod_beta)

lemma map_nth_upt: "map (\<lambda>k. f (xs ! k)) [0..<length xs] = map f xs"
  by (rule nth_equalityI) simp_all

lemma getCurrentBox_None:
  "getCurrentBox boxes None =
     Inr (map fst boxes, map (\<lambda>b. fst (snd b)) boxes,
          map (\<lambda>b. fst (snd (snd b))) boxes, map (\<lambda>b. snd (snd (snd b))) boxes)"
  by (simp add: getCurrentBox_def list_all_iff case_prod_beta Let_def
        map_nth_upt [of fst] map_nth_upt [of "\<lambda>b. fst (snd b)"]
        map_nth_upt [of "\<lambda>b. fst (snd (snd b))"] map_nth_upt [of "\<lambda>b. snd (snd (snd b))"])

lemma areas_of_boxes:
  "map2 (*) (map (\<lambda>v. v + 1) (map2 (-) (map (\<lambda>b. fst (snd (snd b))) boxes) (map fst boxes)))
            (map (\<lambda>v. v + 1) (map2 (-) (map (\<lambda>b. snd (snd (snd b))) boxes)
                                        (map (\<lambda>b. fst (snd b)) boxes))) =
     map box_area boxes"
  by (simp add: map2_map_map box_area_def case_prod_beta)

lemma broadcast_single: "broadcast f [a] bs = map (f a) bs"
  by (simp add: broadcast_def)

lemma intersection_area_components:
  "max 0 (min (fst (snd (snd a))) (fst (snd (snd b))) - max (fst a) (fst b) + 1) *
   max 0 (min (snd (snd (snd a))) (snd (snd (snd b))) - max (fst (snd a)) (fst (snd b)) + 1) =
   intersection_area a b"
  by (simp only: intersection_area_def case_prod_beta)

lemma slice_map_Cons:
  "slice (map f (i # candidates)) 0 (Some 1) = [f i]"
  "slice (map f (i # candidates)) 1 None = map f candidates"
  by (simp_all add: slice_def)

lemma nms_overlaps_in_range:
  assumes "list_all (\<lambda>order. order < length boxes) (i # candidates)"
  shows "nms_overlaps boxes (map box_area boxes) (i # candidates) =
     Inr (map (\<lambda>j. let inter = intersection_area (boxes ! i) (boxes ! j);
                        d = box_area (boxes ! 0) + box_area (boxes ! j) - inter
                    in if d = 0 then None else Some (inter / d)) candidates)"
proof -
  from assms have "boxes \<noteq> []" and in_range: "\<forall>j\<in>set candidates. j < length boxes"
    by (auto simp: list_all_iff)
  then have area0: "slice (map box_area boxes) 0 (Some 1) = [box_area (boxes ! 0)]"
    by (cases boxes) (simp_all add: slice_def)
  have areas: "slice (gather (map box_area boxes) (i # candidates)) 1 None =
      map (\<lambda>j. box_area (boxes ! j)) candidates"
    using in_range by (simp add: slice_def gather_def)
  show ?thesis
    unfolding nms_overlaps_def getCurrentBox_in_range [OF assms] sum.case prod.case Let_def
      area0 areas slice_map_Cons broadcast_single
    by (intro arg_cong [where f = Inr] nth_equalityI)
       (simp_all add: tf_div_def intersection_area_components Let_def)
qed

lemma nms_iteration_in_range:
  assumes "list_all (\<lambda>order. order < length boxes) (i # candidates)"
  shows "nms_iteration boxes (map box_area boxes) nmsThr (i # candidates) =
     Inr (filter (nms_retains boxes nmsThr i) candidates)"
proof -
  let ?ovr = "\<lambda>j. let inter = intersection_area (boxes ! i) (boxes ! j);
                        d = box_area (boxes ! 0) + box_area (boxes ! j) - inter
                    in if d = 0 then None else Some (inter / d)"
  have "gather (i # candidates) (map (\<lambda>k. k + 1) (where_le (map ?ovr candidates) nmsThr)) =
      map (\<lambda>k. candidates ! k)
        (filter (\<lambda>k. case ?ovr (candidates ! k) of None \<Rightarrow> False | Some v \<Rightarrow> v \<le> nmsThr)
           [0..<length candidates])"
  proof -
    have "filter (\<lambda>k. case map ?ovr candidates ! k of None \<Rightarrow> False | Some v \<Rightarrow> v \<le> nmsThr)
        [0..<length candidates] =
      filter (\<lambda>k. case ?ovr (candidates ! k) of None \<Rightarrow> False | Some v \<Rightarrow> v \<le> nmsThr)
        [0..<length candidates]"
      by (rule filter_cong) simp_all
    then show ?thesis
      by (simp add: gather_def where_le_def comp_def)
  qed
  also have "\<dots> = filter (\<lambda>j. case ?ovr j of None \<Rightarrow> False | Some v \<Rightarrow> v \<le> nmsThr) candidates"
    by (rule gather_where)
  also have "\<dots> = filter (nms_retains boxes nmsThr i) candidates"
    by (rule filter_cong) (simp_all add: nms_retains_def Let_def)
  finally show ?thesis
    by (simp add: nms_iteration_def nms_overlaps_in_range [OF assms] Let_def)
qed

lemma nms_loop_greedy:
  assumes "list_all (\<lambda>order. order < length boxes) order"
  shows "nms_loop boxes (map box_area boxes) nmsThr order keep =
     Inr (keep @ nms_greedy boxes nmsThr order)"
  using assms
proof (induction boxes nmsThr order arbitrary: keep rule: nms_greedy.induct)
  case (1 boxes nmsThr)
  then show ?case by (simp add: nms_loop.simps)
next
  case (2 boxes nmsThr i candidates)
  from "2.prems" have "list_all (\<lambda>order. order < length boxes)
      (filter (nms_retains boxes nmsThr i) candidates)"
    by (simp add: list_all_iff)
  from "2.IH" [OF this] show ?case
    by (subst nms_loop.simps) (simp add: nms_iteration_in_range [OF "2.prems"])
qed

text \<open>
  With a box for every score, \<open>_nms\<close> returns the greedy selection over the indices in
  descending order of score, with \<open>nms_retains\<close> as its test. The test is the
  reference's when the kept box is box 0.
\<close>

lemma nms_greedy_with_area_of_box_0:
  assumes "length scores \<le> length boxes"
  shows "nms boxes scores nmsThr = Inr (nms_greedy boxes nmsThr (argSort scores))"
proof -
  have "list_all (\<lambda>order. order < length boxes) (argSort scores)"
    using assms by (auto simp: argSort_def list_all_iff)
  from nms_loop_greedy [OF this, of nmsThr "[]"] show ?thesis
    unfolding nms_def Let_def getCurrentBox_None sum.case prod.case areas_of_boxes by simp
qed

lemma nms_retains_box_0:
  assumes "box_area (boxes ! 0) + box_area (boxes ! j) \<noteq>
    intersection_area (boxes ! 0) (boxes ! j)"
  shows "nms_retains boxes nmsThr 0 j = (iou (boxes ! 0) (boxes ! j) \<le> nmsThr)"
  using assms by (simp add: nms_retains_def iou_def Let_def)

text \<open>
  Claim C5 (a defect of the code). The claim's own example holds: of two identical boxes
  with scores 0.9 and 0.8 only the first is kept at threshold 0.45. But \<open>_nms\<close> is not
  the reference greedy algorithm. With the boxes \<open>(0,0,4,4)\<close> (score 0.5) and
  \<open>(0,0,9,9)\<close> (score 0.75), the second is kept first; the first lies inside it, with
  areas 25 and 100 and overlap 25 / 100, below the threshold, so the reference keeps
  both. \<open>_nms\<close> takes the area of the kept box from \<open>areas.slice(0, 1)\<close>, the area of
  box 0, computes 25 / (25 + 25 - 25) = 1 and drops box 0.
\<close>

theorem nms_reads_the_area_of_box_0:
  "nms [(10, 10, 20, 20), (10, 10, 20, 20)] [9 / 10, 8 / 10] (45 / 100) = Inr [0]
   \<and> spec_nms [(10, 10, 20, 20), (10, 10, 20, 20)] [9 / 10, 8 / 10] (45 / 100) = [0]
   \<and> nms [(0, 0, 4, 4), (0, 0, 9, 9)] [1 / 2, 3 / 4] (45 / 100) = Inr [1]
   \<and> spec_nms [(0, 0, 4, 4), (0, 0, 9, 9)] [1 / 2, 3 / 4] (45 / 100) = [1, 0]
   \<and> iou (0, 0, 9, 9) (0, 0, 4, 4) = 1 / 4"
  by code_simp

text \<open>
  Claim C9 (the same defect). The boxes \<open>(0,0,9,9)\<close>, \<open>(100,100,100,100)\<close>, \<open>(0,0,4,4)\<close>
  with scores 0.75, 0.875, 0.5 are all kept, in the order of their scores. The kept
  boxes have scores above 0.1 and overlap pairwise by at most 0.25, below the threshold
  0.45. A second run on the kept boxes, with their scores, drops \<open>(0,0,4,4)\<close>: box 0 is
  now \<open>(100,100,100,100)\<close>, of area 1, and the overlap of \<open>(0,0,9,9)\<close> with \<open>(0,0,4,4)\<close>
  is computed with that area, as 25 / (1 + 25 - 25) = 25.
\<close>

theorem nms_is_not_idempotent:
  "nms [(0, 0, 9, 9), (100, 100, 100, 100), (0, 0, 4, 4)] [3 / 4, 7 / 8, 1 / 2] (45 / 100) =
     Inr [1, 0, 2]
   \<and> multiclassNmsClassAgnostic [(0, 0, 9, 9), (100, 100, 100, 100), (0, 0, 4, 4)]
       [3 / 4, 7 / 8, 1 / 2] (45 / 100) (1 / 10) =
     Inr [(100, 100, 100, 100), (0, 0, 9, 9), (0, 0, 4, 4)]
   \<and> iou (100, 100, 100, 100) (0, 0, 9, 9) = 0
   \<and> iou (100, 100, 100, 100) (0, 0, 4, 4) = 0
   \<and> iou (0, 0, 9, 9) (0, 0, 4, 4) = 1 / 4
   \<and> nms [(100, 100, 100, 100), (0, 0, 9, 9), (0, 0, 4, 4)] [7 / 8, 3 / 4, 1 / 2] (45 / 100) =
     Inr [0, 1]
   \<and> multiclassNmsClassAgnostic [(100, 100, 100, 100), (0, 0, 9, 9), (0, 0, 4, 4)]
       [7 / 8, 3 / 4, 1 / 2] (45 / 100) (1 / 10) =
     Inr [(100, 100, 100, 100), (0, 0, 9, 9)]
   \<and> spec_nms [(100, 100, 100, 100), (0, 0, 9, 9), (0, 0, 4, 4)] [7 / 8, 3 / 4, 1 / 2]
       (45 / 100) = [0, 1, 2]"
  by code_simp

section \<open>The pipeline\<close>

text \<open>
  The coordinate \<open>2^-21\<close> of claim C7 is reached through \<open>_postProcess\<close>: the anchor
  \<open>[0.5 + 2^-24, 0.5, 0, 0, 1, 1]\<close> in the first cell of stride 8 decodes, with ratio 1,
  to the box \<open>[2^-21, 0, 8 + 2^-21, 8]\<close>, which passes the suppression and is clipped to
  \<open>[4, 0, 8, 8]\<close>.
\<close>

lemma demoPostProcess_tiny_x1:
  "demoPostProcess [1 / 2 + 1 / 2 ^ 24, 1 / 2, 0, 0, 1, 1] (1, 1, 6) (8, 8) =
     Inr [[4 + 1 / 2 ^ 21, 4, 8, 8, 1, 1]]"
  by (simp add: demoPostProcess_def reshape3_def cells8 decode_anchor_def
        adjustBoundingBoxCoordinates_def upt_conv_Cons)

lemma postProcess_scores_tiny_x1:
  "postProcess_scores [1 / 2 + 1 / 2 ^ 24, 1 / 2, 0, 0, 1, 1] (1, 1, 6) (8, 8) =
     Inr ([(4 + 1 / 2 ^ 21, 4, 8, 8)], [1])"
  unfolding postProcess_scores_def demoPostProcess_tiny_x1
  by (simp add: slice_columns_def box_of_row_def)

lemma multiclassNms_tiny_x1:
  "multiclassNms [(1 / 2097152, 0, 16777217 / 2097152, 8)] [1] (9 / 20) (1 / 10) =
     Inr [(1 / 2097152, 0, 16777217 / 2097152, 8)]"
  by code_simp

lemma postProcess_tiny_x1:
  "postProcess [1 / 2 + 1 / 2 ^ 24, 1 / 2, 0, 0, 1, 1] (1, 1, 6) (8, 8) 10 10 1 =
     Inr [(4, 0, 8, 8)]"
proof -
  have "calcBbox [(4 + 1 / 2 ^ 21, 4, 8, 8)] 1 = [(1 / 2 ^ 21, 0, 8 + 1 / 2 ^ 21, 8)]"
    by simp
  then show ?thesis
    unfolding postProcess_def postProcess_scores_tiny_x1
    by (simp add: multiclassNms_tiny_x1 parseInt_def plain_decimal_def leading_digit.simps
          del: calcBbox.simps)
qed

end
